theory Spec2Isabelle
  imports Complex_Main "HOL-Library.Word"
begin

unbundle bit_operations_syntax

section \<open>Machine arithmetic, messages and the platform\<close>

text \<open>
  The plugin \<^verbatim>\<open>GazeboRosDepthCamera\<close> (file \<^verbatim>\<open>gazebo_ros_depth_camera.cpp\<close>) is
  embedded function by function. Member names keep the source's spelling without the
  trailing underscore, which an Isabelle name cannot have; \<^verbatim>\<open>width_\<close> and \<^verbatim>\<open>height_\<close>
  of the base class \<^verbatim>\<open>GazeboRosCameraUtils\<close> are \<open>utils_width\<close> and \<open>utils_height\<close>,
  next to \<^verbatim>\<open>width\<close> and \<^verbatim>\<open>height\<close> of \<^verbatim>\<open>DepthCameraPlugin\<close>.

  Arithmetic on \<^verbatim>\<open>uint32_t\<close> wraps around; \<open>u32\<close> writes the reduction out wherever the
  source multiplies or adds such values. The reduction is a ring homomorphism, so it is
  applied once to a whole \<^verbatim>\<open>uint32_t\<close> expression. Loop counters never wrap: they stay
  below their bound. The \<^verbatim>\<open>int\<close> members (the connection counters, the running
  \<^verbatim>\<open>index\<close>) are unbounded integers respectively naturals: signed overflow has no
  defined result in C++.
\<close>

definition u32 :: "nat \<Rightarrow> nat" where
  "u32 n = n mod 2 ^ 32"

type_synonym uint8 = "8 word"

text \<open>\<^verbatim>\<open>common::Time\<close>, of which the source reads the members \<^verbatim>\<open>sec\<close> and \<^verbatim>\<open>nsec\<close>.\<close>

record Time =
  sec :: int
  nsec :: int

text \<open>\<^verbatim>\<open>std_msgs::Header\<close>: the stamp members are \<^verbatim>\<open>uint32_t\<close>.\<close>

record Header =
  frame_id :: string
  stamp_sec :: nat
  stamp_nsec :: nat

text \<open>
  \<^verbatim>\<open>pcl::PointXYZRGB\<close>. Its colour is one 32-bit cell that the source writes either
  byte by byte (\<^verbatim>\<open>point.r\<close>, \<^verbatim>\<open>point.g\<close>, \<^verbatim>\<open>point.b\<close>) or as a packed float
  (\<^verbatim>\<open>point.rgb\<close>).
\<close>

datatype 'f colour = RGB uint8 uint8 uint8 | PackedRGB 'f

record 'f PointXYZRGB =
  pt_x :: 'f
  pt_y :: 'f
  pt_z :: 'f
  pt_colour :: "'f colour"

text \<open>\<^verbatim>\<open>pcl::PointCloud<pcl::PointXYZRGB>\<close>: the header, the point vector, the dense flag.\<close>

record 'f PointCloud =
  pc_header :: Header
  points :: "'f PointXYZRGB list"
  is_dense :: bool

text \<open>
  \<^verbatim>\<open>sensor_msgs::PointCloud2\<close>, with the members the source assigns and the payload
  that \<^verbatim>\<open>pcl::toROSMsg\<close> writes.
\<close>

record PointCloud2 =
  pc2_header :: Header
  pc2_height :: nat
  pc2_width :: nat
  pc2_point_step :: nat
  pc2_row_step :: nat
  pc2_data :: "uint8 list"
  pc2_is_dense :: bool

text \<open>
  \<^verbatim>\<open>sensor_msgs::Image\<close>. The source fills \<^verbatim>\<open>data\<close> through a \<^verbatim>\<open>float*\<close>, so the
  byte vector is kept as the list of the floats it holds (four bytes each).
\<close>

record 'f Image =
  img_header :: Header
  img_height :: nat
  img_width :: nat
  img_encoding :: string
  img_is_bigendian :: nat
  img_step :: nat
  img_data :: "'f list"

text \<open>
  What the source takes from outside this file is a parameter: the floating-point unit
  (\<open>'f\<close> is \<^verbatim>\<open>float\<close>, \<open>'d\<close> is \<^verbatim>\<open>double\<close>; conversions, literals, arithmetic, \<^verbatim>\<open>tan\<close>
  and \<^verbatim>\<open>atan2\<close> of the C library, the quiet NaN, the zero bytes read as a float, the
  bits of a float), the operators of \<^verbatim>\<open>common::Time\<close> and \<^verbatim>\<open>pcl::toROSMsg\<close>.
  The comparison \<^verbatim>\<open>a > b\<close> of two doubles is \<open>b < a\<close> in a preorder on \<open>'d\<close>: the
  IEEE comparison is the strict part of one, with NaN comparable to nothing.
\<close>

record ('f, 'd) platform =
  d_of_f :: "'f \<Rightarrow> 'd"
  f_of_d :: "'d \<Rightarrow> 'f"
  d_of_u32 :: "nat \<Rightarrow> 'd"
  d_zero :: 'd
  d_half :: 'd
  d_two :: 'd
  d_minus :: "'d \<Rightarrow> 'd \<Rightarrow> 'd"
  d_times :: "'d \<Rightarrow> 'd \<Rightarrow> 'd"
  d_divide :: "'d \<Rightarrow> 'd \<Rightarrow> 'd"
  d_tan :: "'d \<Rightarrow> 'd"
  d_atan2 :: "'d \<Rightarrow> 'd \<Rightarrow> 'd"
  f_quiet_NaN :: 'f
  f_zero_bytes :: 'f
  f_bits :: "'f \<Rightarrow> 32 word"
  time_minus :: "Time \<Rightarrow> Time \<Rightarrow> Time"
  time_ge :: "Time \<Rightarrow> 'd \<Rightarrow> bool"
  toROSMsg :: "'f PointCloud \<Rightarrow> PointCloud2 \<Rightarrow> PointCloud2"

section \<open>Loops\<close>

text \<open>
  \<^verbatim>\<open>for (uint32_t i = lo; i < n; i++) body\<close>, for a body that neither assigns the
  counter nor leaves the loop early.
\<close>

function for_loop :: "nat \<Rightarrow> nat \<Rightarrow> (nat \<Rightarrow> 's \<Rightarrow> 's) \<Rightarrow> 's \<Rightarrow> 's" where
  "for_loop i n body s = (if i < n then for_loop (i + 1) n body (body i s) else s)"
  by pat_completeness auto
termination
  by (relation "measure (\<lambda>(i, n, body, s). n - i)") auto

declare for_loop.simps [simp del]

section \<open>The geometric converter\<close>

text \<open>
  The body of the inner loop of \<^verbatim>\<open>FillPointCloudHelper\<close> for column \<open>i\<close> of row \<open>j\<close>,
  in two parts. \<open>FillPointCloud_point\<close> is the \<^verbatim>\<open>point\<close> that is pushed, computed from
  the sample just read, together with the outcome of the cutoff test;
  \<open>FillPointCloud_pixel\<close> reads \<^verbatim>\<open>toCopyFrom[index++]\<close>, appends the point and clears
  the dense flag when the test failed. The loop state is the running index and the cloud.
  The size tests and the byte offsets are \<^verbatim>\<open>uint32_t\<close> expressions.
\<close>

definition FillPointCloud_point ::
  "('f, 'd::preorder) platform \<Rightarrow> 'd \<Rightarrow> uint8 list \<Rightarrow> nat \<Rightarrow> nat \<Rightarrow> 'd
    \<Rightarrow> nat \<Rightarrow> 'd \<Rightarrow> nat \<Rightarrow> 'f \<Rightarrow> 'f PointXYZRGB \<times> bool" where
  "FillPointCloud_point F cutoff image_data rows_arg cols_arg fl j pAngle i sample =
    (let yAngle =
           (if cols_arg > 1
            then d_atan2 F (d_minus F (d_of_u32 F i)
                   (d_times F (d_half F) (d_of_u32 F (cols_arg - 1)))) fl
            else d_zero F);
         depth = d_of_f F sample;
         x0 = f_of_d F (d_times F depth (d_tan F yAngle));
         y0 = f_of_d F (d_times F depth (d_tan F pAngle));
         (x, y, z, seen) =
           (if cutoff < depth
            then (x0, y0, f_of_d F depth, True)
            else (f_quiet_NaN F, f_quiet_NaN F, f_quiet_NaN F, False));
         image_src = (\<lambda>k. image_data ! k);
         c =
           (if length image_data = u32 (rows_arg * cols_arg * 3)
            then RGB (image_src (u32 (i * 3 + j * cols_arg * 3 + 0)))
                     (image_src (u32 (i * 3 + j * cols_arg * 3 + 1)))
                     (image_src (u32 (i * 3 + j * cols_arg * 3 + 2)))
            else if length image_data = u32 (rows_arg * cols_arg)
            then RGB (image_src (u32 (i + j * cols_arg)))
                     (image_src (u32 (i + j * cols_arg)))
                     (image_src (u32 (i + j * cols_arg)))
            else RGB 0 0 0)
     in (\<lparr>pt_x = x, pt_y = y, pt_z = z, pt_colour = c\<rparr>, seen))"

definition FillPointCloud_pixel ::
  "('f, 'd::preorder) platform \<Rightarrow> 'd \<Rightarrow> uint8 list \<Rightarrow> nat \<Rightarrow> nat \<Rightarrow> 'f list \<Rightarrow> 'd
    \<Rightarrow> nat \<Rightarrow> 'd \<Rightarrow> nat \<Rightarrow> nat \<times> 'f PointCloud \<Rightarrow> nat \<times> 'f PointCloud" where
  "FillPointCloud_pixel F cutoff image_data rows_arg cols_arg toCopyFrom fl j pAngle i acc =
    (case acc of (index, point_cloud) \<Rightarrow>
      let (point, seen) =
            FillPointCloud_point F cutoff image_data rows_arg cols_arg fl j pAngle i
              (toCopyFrom ! index)
      in (index + 1,
          point_cloud\<lparr>points := points point_cloud @ [point],
                      is_dense := (if seen then is_dense point_cloud else False)\<rparr>))"

text \<open>
  The local \<^verbatim>\<open>point_cloud\<close> of \<^verbatim>\<open>FillPointCloudHelper\<close> when it is handed to
  \<^verbatim>\<open>pcl::toROSMsg\<close>. The focal length comes from the member \<^verbatim>\<open>width\<close>, the horizontal
  field of view from the sensor, the cutoff from \<^verbatim>\<open>point_cloud_cutoff_\<close> and the colour
  bytes from \<^verbatim>\<open>image_msg_.data\<close>; \<^verbatim>\<open>step_arg\<close> is not used.
\<close>

definition FillPointCloudHelper_point_cloud ::
  "('f, 'd::preorder) platform \<Rightarrow> nat \<Rightarrow> 'd \<Rightarrow> 'd \<Rightarrow> uint8 list \<Rightarrow> PointCloud2
    \<Rightarrow> nat \<Rightarrow> nat \<Rightarrow> nat \<Rightarrow> 'f list \<Rightarrow> 'f PointCloud" where
  "FillPointCloudHelper_point_cloud F width hfov cutoff image_data point_cloud_msg
      rows_arg cols_arg step_arg toCopyFrom =
    (let point_cloud0 =
           \<lparr>pc_header = \<lparr>frame_id = [], stamp_sec = 0, stamp_nsec = 0\<rparr>,
            points = [], is_dense = True\<rparr>;
         fl = d_divide F (d_of_u32 F width)
                (d_times F (d_two F) (d_tan F (d_divide F hfov (d_two F))));
         (index, point_cloud) =
           for_loop 0 rows_arg
             (\<lambda>j acc.
                let pAngle =
                      (if rows_arg > 1
                       then d_atan2 F (d_minus F (d_of_u32 F j)
                              (d_times F (d_half F) (d_of_u32 F (rows_arg - 1)))) fl
                       else d_zero F)
                in for_loop 0 cols_arg
                     (FillPointCloud_pixel F cutoff image_data rows_arg cols_arg
                        toCopyFrom fl j pAngle) acc)
             (0, point_cloud0)
     in point_cloud\<lparr>pc_header := pc2_header point_cloud_msg\<rparr>)"

text \<open>\<^verbatim>\<open>FillPointCloudHelper\<close>: the message after \<^verbatim>\<open>pcl::toROSMsg\<close>; the C++ result is always \<^verbatim>\<open>true\<close>.\<close>

definition FillPointCloudHelper ::
  "('f, 'd::preorder) platform \<Rightarrow> nat \<Rightarrow> 'd \<Rightarrow> 'd \<Rightarrow> uint8 list \<Rightarrow> PointCloud2
    \<Rightarrow> nat \<Rightarrow> nat \<Rightarrow> nat \<Rightarrow> 'f list \<Rightarrow> PointCloud2" where
  "FillPointCloudHelper F width hfov cutoff image_data point_cloud_msg
      rows_arg cols_arg step_arg toCopyFrom =
    toROSMsg F
      (FillPointCloudHelper_point_cloud F width hfov cutoff image_data point_cloud_msg
         rows_arg cols_arg step_arg toCopyFrom)
      point_cloud_msg"

section \<open>The depth-image converter\<close>

definition TYPE_32FC1 :: string where
  "TYPE_32FC1 = ''32FC1''"

text \<open>
  \<^verbatim>\<open>std::vector::resize\<close> on the float view of the byte vector: old contents are kept,
  new cells hold zero bytes.
\<close>

definition resize :: "nat \<Rightarrow> 'a \<Rightarrow> 'a list \<Rightarrow> 'a list" where
  "resize n fill xs = take n xs @ replicate (n - length xs) fill"

text \<open>
  \<^verbatim>\<open>FillDepthImageHelper\<close>. The metadata are assigned first; the loop then writes
  \<^verbatim>\<open>dest[i + j * cols_arg]\<close> for the sample read at \<^verbatim>\<open>toCopyFrom[index++]\<close>. The
  comparison promotes the float sample to double. The byte size
  \<^verbatim>\<open>rows_arg * cols_arg * sizeof(float)\<close> multiplies the \<^verbatim>\<open>uint32_t\<close> product by four
  in \<^verbatim>\<open>size_t\<close>, which is \<open>u32 (rows_arg * cols_arg)\<close> floats; the step is stored in a
  \<^verbatim>\<open>uint32_t\<close>. The C++ result is always \<^verbatim>\<open>true\<close>.
\<close>

definition FillDepthImage_pixel ::
  "('f, 'd::preorder) platform \<Rightarrow> 'd \<Rightarrow> nat \<Rightarrow> 'f list \<Rightarrow> nat \<Rightarrow> nat
    \<Rightarrow> nat \<times> 'f Image \<Rightarrow> nat \<times> 'f Image" where
  "FillDepthImage_pixel F cutoff cols_arg toCopyFrom j i acc =
    (case acc of (index, image_msg) \<Rightarrow>
      let bad_point = f_quiet_NaN F;
          depth = toCopyFrom ! index
      in (index + 1,
          (if cutoff < d_of_f F depth
           then image_msg\<lparr>img_data := (img_data image_msg)[u32 (i + j * cols_arg) := depth]\<rparr>
           else image_msg\<lparr>img_data :=
                  (img_data image_msg)[u32 (i + j * cols_arg) := bad_point]\<rparr>)))"

definition FillDepthImage_metadata ::
  "('f, 'd) platform \<Rightarrow> 'f Image \<Rightarrow> nat \<Rightarrow> nat \<Rightarrow> 'f Image" where
  "FillDepthImage_metadata F image_msg rows_arg cols_arg =
    image_msg\<lparr>img_encoding := TYPE_32FC1,
              img_height := rows_arg,
              img_width := cols_arg,
              img_step := u32 (4 * cols_arg),
              img_data := resize (u32 (rows_arg * cols_arg)) (f_zero_bytes F)
                            (img_data image_msg),
              img_is_bigendian := 0\<rparr>"

definition FillDepthImageHelper ::
  "('f, 'd::preorder) platform \<Rightarrow> 'd \<Rightarrow> 'f Image \<Rightarrow> nat \<Rightarrow> nat \<Rightarrow> nat \<Rightarrow> 'f list
    \<Rightarrow> 'f Image" where
  "FillDepthImageHelper F cutoff image_msg rows_arg cols_arg step_arg toCopyFrom =
    snd (for_loop 0 rows_arg
           (\<lambda>j. for_loop 0 cols_arg (FillDepthImage_pixel F cutoff cols_arg toCopyFrom j))
           (0, FillDepthImage_metadata F image_msg rows_arg cols_arg))"

section \<open>The plugin object\<close>

text \<open>
  What the plugin does to its collaborators, in the order of the calls: requests to the
  sensor, the one-time registration of the three topics, messages handed to a publisher,
  calls into the base class \<^verbatim>\<open>GazeboRosCameraUtils\<close> and the line written to
  \<^verbatim>\<open>std::cerr\<close>.
\<close>

datatype 'f effect =
    SetActive bool
  | Advertised
  | Publish_point_cloud PointCloud2
  | Publish_depth_image "'f Image"
  | PutCameraData "uint8 list"
  | Utils_PublishCameraInfo
  | Utils_PublishCameraInfo_depth
  | Cerr uint8 uint8 uint8

text \<open>
  The members the code of this file reads or writes. The sensor is part of the state:
  \<open>sensor_active\<close> is what \<^verbatim>\<open>parentSensor->IsActive()\<close> returns and
  \<^verbatim>\<open>SetActive\<close> sets, \<open>sensor_last_update_time\<close> is \<^verbatim>\<open>GetLastUpdateTime()\<close>,
  \<open>sensor_hfov\<close> is \<^verbatim>\<open>GetDepthCamera()->GetHFOV().Radian()\<close> and \<open>world_sim_time\<close>
  is \<^verbatim>\<open>world_->GetSimTime()\<close>. The mutex \<^verbatim>\<open>lock_\<close> is left out: every function
  here runs to its end before the next one starts.
\<close>

record ('f, 'd) GazeboRosDepthCamera =
  point_cloud_connect_count :: int
  depth_image_connect_count :: int
  depth_info_connect_count :: int
  image_connect_count :: int
  last_depth_image_camera_info_update_time :: Time
  advertised :: bool
  initialized :: bool
  utils_width :: nat
  utils_height :: nat
  width :: nat
  height :: nat
  skip :: nat
  point_cloud_cutoff :: 'd
  update_period :: 'd
  frame_name :: string
  sensor_update_time :: Time
  depth_sensor_update_time :: Time
  image_msg_data :: "uint8 list"
  point_cloud_msg :: PointCloud2
  depth_image_msg :: "'f Image"
  sensor_active :: bool
  sensor_last_update_time :: Time
  sensor_hfov :: 'd
  world_sim_time :: Time
  effects :: "'f effect list"

definition emit ::
  "'f effect \<Rightarrow> ('f, 'd) GazeboRosDepthCamera \<Rightarrow> ('f, 'd) GazeboRosDepthCamera" where
  "emit e this = this\<lparr>effects := effects this @ [e]\<rparr>"

text \<open>\<^verbatim>\<open>this->parentSensor->SetActive(b)\<close>: the request is recorded and takes effect.\<close>

definition parentSensor_SetActive ::
  "bool \<Rightarrow> ('f, 'd) GazeboRosDepthCamera \<Rightarrow> ('f, 'd) GazeboRosDepthCamera" where
  "parentSensor_SetActive b this = emit (SetActive b) (this\<lparr>sensor_active := b\<rparr>)"

text \<open>
  The constructor assigns four members of the object that the base-class constructors
  left; \<^verbatim>\<open>depth_image_connect_count_\<close> is not among them.
\<close>

definition GazeboRosDepthCamera_ctor ::
  "('f, 'd) GazeboRosDepthCamera \<Rightarrow> ('f, 'd) GazeboRosDepthCamera" where
  "GazeboRosDepthCamera_ctor this =
    this\<lparr>point_cloud_connect_count := 0,
         depth_info_connect_count := 0,
         last_depth_image_camera_info_update_time := \<lparr>sec = 0, nsec = 0\<rparr>,
         advertised := False\<rparr>"

definition Advertise ::
  "('f, 'd) GazeboRosDepthCamera \<Rightarrow> ('f, 'd) GazeboRosDepthCamera" where
  "Advertise this = (emit Advertised this)\<lparr>advertised := True\<rparr>"

subsection \<open>The connection callbacks\<close>

definition PointCloudConnect ::
  "('f, 'd) GazeboRosDepthCamera \<Rightarrow> ('f, 'd) GazeboRosDepthCamera" where
  "PointCloudConnect this =
    parentSensor_SetActive True
      (this\<lparr>point_cloud_connect_count := point_cloud_connect_count this + 1,
            image_connect_count := image_connect_count this + 1\<rparr>)"

definition PointCloudDisconnect ::
  "('f, 'd) GazeboRosDepthCamera \<Rightarrow> ('f, 'd) GazeboRosDepthCamera" where
  "PointCloudDisconnect this =
    (let this1 = this\<lparr>point_cloud_connect_count := point_cloud_connect_count this - 1,
                      image_connect_count := image_connect_count this - 1\<rparr>
     in if point_cloud_connect_count this1 \<le> 0
        then parentSensor_SetActive False this1
        else this1)"

definition DepthImageConnect ::
  "('f, 'd) GazeboRosDepthCamera \<Rightarrow> ('f, 'd) GazeboRosDepthCamera" where
  "DepthImageConnect this =
    parentSensor_SetActive True
      (this\<lparr>depth_image_connect_count := depth_image_connect_count this + 1\<rparr>)"

definition DepthImageDisconnect ::
  "('f, 'd) GazeboRosDepthCamera \<Rightarrow> ('f, 'd) GazeboRosDepthCamera" where
  "DepthImageDisconnect this =
    this\<lparr>depth_image_connect_count := depth_image_connect_count this - 1\<rparr>"

definition DepthInfoConnect ::
  "('f, 'd) GazeboRosDepthCamera \<Rightarrow> ('f, 'd) GazeboRosDepthCamera" where
  "DepthInfoConnect this =
    this\<lparr>depth_info_connect_count := depth_info_connect_count this + 1\<rparr>"

definition DepthInfoDisconnect ::
  "('f, 'd) GazeboRosDepthCamera \<Rightarrow> ('f, 'd) GazeboRosDepthCamera" where
  "DepthInfoDisconnect this =
    this\<lparr>depth_info_connect_count := depth_info_connect_count this - 1\<rparr>"

subsection \<open>Filling and publishing\<close>

text \<open>An \<^verbatim>\<open>int32_t\<close> member of \<^verbatim>\<open>common::Time\<close> stored in a \<^verbatim>\<open>uint32_t\<close> stamp.\<close>

definition u32_of_int :: "int \<Rightarrow> nat" where
  "u32_of_int k = nat (k mod 2 ^ 32)"

definition stamp_header :: "string \<Rightarrow> Time \<Rightarrow> Header \<Rightarrow> Header" where
  "stamp_header name t h =
    h\<lparr>frame_id := name, stamp_sec := u32_of_int (sec t), stamp_nsec := u32_of_int (nsec t)\<rparr>"

definition FillPointdCloud ::
  "('f, 'd::preorder) platform \<Rightarrow> ('f, 'd) GazeboRosDepthCamera \<Rightarrow> 'f list
    \<Rightarrow> ('f, 'd) GazeboRosDepthCamera" where
  "FillPointdCloud F this src =
    (let m0 = point_cloud_msg this;
         m1 = m0\<lparr>pc2_header :=
                   stamp_header (frame_name this) (depth_sensor_update_time this) (pc2_header m0),
                 pc2_width := width this,
                 pc2_height := height this,
                 pc2_row_step := u32 (pc2_point_step m0 * width this)\<rparr>;
         m2 = FillPointCloudHelper F (width this) (sensor_hfov this) (point_cloud_cutoff this)
                (image_msg_data this) m1 (height this) (width this) (skip this) src
     in emit (Publish_point_cloud m2) (this\<lparr>point_cloud_msg := m2\<rparr>))"

definition FillDepthImage ::
  "('f, 'd::preorder) platform \<Rightarrow> ('f, 'd) GazeboRosDepthCamera \<Rightarrow> 'f list
    \<Rightarrow> ('f, 'd) GazeboRosDepthCamera" where
  "FillDepthImage F this src =
    (let m0 = depth_image_msg this;
         m1 = m0\<lparr>img_header :=
                   stamp_header (frame_name this) (depth_sensor_update_time this) (img_header m0)\<rparr>;
         m2 = FillDepthImageHelper F (point_cloud_cutoff this) m1 (height this) (width this)
                (skip this) src
     in emit (Publish_depth_image m2) (this\<lparr>depth_image_msg := m2\<rparr>))"

subsection \<open>The frame callbacks\<close>

definition OnNewDepthFrame ::
  "('f, 'd::preorder) platform \<Rightarrow> ('f, 'd) GazeboRosDepthCamera \<Rightarrow> 'f list \<Rightarrow> nat \<Rightarrow> nat
    \<Rightarrow> nat \<Rightarrow> string \<Rightarrow> ('f, 'd) GazeboRosDepthCamera" where
  "OnNewDepthFrame F this img w h d format =
    (if \<not> initialized this \<or> utils_height this \<le> 0 \<or> utils_width this \<le> 0 then this
     else
       let this1 = (if \<not> advertised this then Advertise this else this);
           this2 = this1\<lparr>depth_sensor_update_time := sensor_last_update_time this1\<rparr>
       in if sensor_active this2
          then
            (if point_cloud_connect_count this2 \<le> 0 \<and>
                depth_image_connect_count this2 \<le> 0 \<and>
                image_connect_count this2 \<le> 0
             then parentSensor_SetActive False this2
             else
               let this3 = (if point_cloud_connect_count this2 > 0
                            then FillPointdCloud F this2 img else this2)
               in if depth_image_connect_count this3 > 0
                  then FillDepthImage F this3 img else this3)
          else
            (if point_cloud_connect_count this2 > 0 \<or>
                depth_image_connect_count this2 \<le> 0
             then parentSensor_SetActive True this2
             else this2))"

text \<open>
  The body of the loops of \<^verbatim>\<open>OnNewRGBPointCloud\<close> for column \<open>i\<close> and row \<open>j\<close>. The
  offsets are \<^verbatim>\<open>unsigned int\<close> expressions. The loop state is the local cloud and the
  effects, to which the centre pixel adds its colour bytes.
\<close>

definition OnNewRGBPointCloud_pixel ::
  "('f, 'd) platform \<Rightarrow> 'f list \<Rightarrow> nat \<Rightarrow> nat \<Rightarrow> nat \<Rightarrow> nat
    \<Rightarrow> 'f PointCloud \<times> 'f effect list \<Rightarrow> 'f PointCloud \<times> 'f effect list" where
  "OnNewRGBPointCloud_pixel F pcd w h i j acc =
    (case acc of (point_cloud, out) \<Rightarrow>
      let index = u32 (j * w + i);
          point = \<lparr>pt_x = pcd ! u32 (4 * index),
                   pt_y = pcd ! u32 (4 * index + 1),
                   pt_z = pcd ! u32 (4 * index + 2),
                   pt_colour = PackedRGB (pcd ! u32 (4 * index + 3))\<rparr>;
          point_cloud1 = point_cloud\<lparr>points := points point_cloud @ [point]\<rparr>
      in if i = w div 2 \<and> j = h div 2
         then
           let rgb = f_bits F (pcd ! u32 (4 * index + 3));
               r = ucast (drop_bit 16 rgb AND 255);
               g = ucast (drop_bit 8 rgb AND 255);
               b = ucast (rgb AND 255)
           in (point_cloud1, out @ [Cerr r g b])
         else (point_cloud1, out))"

text \<open>The two nested loops: \<open>i\<close> over the columns outside, \<open>j\<close> over the rows inside.\<close>

definition OnNewRGBPointCloud_loops ::
  "('f, 'd) platform \<Rightarrow> 'f list \<Rightarrow> nat \<Rightarrow> nat
    \<Rightarrow> 'f PointCloud \<times> 'f effect list \<Rightarrow> 'f PointCloud \<times> 'f effect list" where
  "OnNewRGBPointCloud_loops F pcd w h acc =
    for_loop 0 w (\<lambda>i. for_loop 0 h (OnNewRGBPointCloud_pixel F pcd w h i)) acc"

definition OnNewRGBPointCloud ::
  "('f, 'd) platform \<Rightarrow> ('f, 'd) GazeboRosDepthCamera \<Rightarrow> 'f list \<Rightarrow> nat \<Rightarrow> nat
    \<Rightarrow> nat \<Rightarrow> string \<Rightarrow> ('f, 'd) GazeboRosDepthCamera" where
  "OnNewRGBPointCloud F this pcd w h d format =
    (if \<not> initialized this \<or> utils_height this \<le> 0 \<or> utils_width this \<le> 0 then this
     else
       let this1 = (if \<not> advertised this then Advertise this else this);
           this2 = this1\<lparr>depth_sensor_update_time := sensor_last_update_time this1\<rparr>
       in if \<not> sensor_active this2
          then
            (if point_cloud_connect_count this2 > 0
             then parentSensor_SetActive True this2
             else this2)
          else
            (if point_cloud_connect_count this2 > 0
             then
               let m0 = point_cloud_msg this2;
                   m1 = m0\<lparr>pc2_header :=
                             stamp_header (frame_name this2) (depth_sensor_update_time this2)
                               (pc2_header m0),
                           pc2_width := width this2,
                           pc2_height := height this2,
                           pc2_row_step := u32 (pc2_point_step m0 * width this2)\<rparr>;
                   point_cloud0 =
                     \<lparr>pc_header = \<lparr>frame_id = [], stamp_sec = 0, stamp_nsec = 0\<rparr>,
                      points = [], is_dense = True\<rparr>;
                   (point_cloud, out) =
                     OnNewRGBPointCloud_loops F pcd w h (point_cloud0, effects this2);
                   m2 = toROSMsg F (point_cloud\<lparr>pc_header := pc2_header m1\<rparr>) m1
               in emit (Publish_point_cloud m2)
                    (this2\<lparr>point_cloud_msg := m2, effects := out\<rparr>)
             else this2))"

definition OnNewImageFrame ::
  "('f, 'd) GazeboRosDepthCamera \<Rightarrow> uint8 list \<Rightarrow> nat \<Rightarrow> nat \<Rightarrow> nat \<Rightarrow> string
    \<Rightarrow> ('f, 'd) GazeboRosDepthCamera" where
  "OnNewImageFrame this img w h d format =
    (if \<not> initialized this \<or> utils_height this \<le> 0 \<or> utils_width this \<le> 0 then this
     else
       let this1 = (if \<not> advertised this then Advertise this else this);
           this2 = this1\<lparr>sensor_update_time := sensor_last_update_time this1\<rparr>
       in if \<not> sensor_active this2
          then
            (if image_connect_count this2 > 0
             then parentSensor_SetActive True this2
             else this2)
          else
            (if image_connect_count this2 > 0
             then emit (PutCameraData img) this2
             else this2))"

subsection \<open>Camera info\<close>

definition PublishCameraInfo ::
  "('f, 'd) platform \<Rightarrow> ('f, 'd) GazeboRosDepthCamera \<Rightarrow> ('f, 'd) GazeboRosDepthCamera" where
  "PublishCameraInfo F this =
    (let this1 = emit Utils_PublishCameraInfo this
     in if depth_info_connect_count this1 > 0
        then
          let this2 = this1\<lparr>sensor_update_time := sensor_last_update_time this1\<rparr>;
              cur_time = world_sim_time this2
          in if time_ge F
                  (time_minus F cur_time (last_depth_image_camera_info_update_time this2))
                  (update_period this2)
             then (emit Utils_PublishCameraInfo_depth this2)
                    \<lparr>last_depth_image_camera_info_update_time := cur_time\<rparr>
             else this2
        else this1)"

subsection \<open>Subscriptions as ROS delivers them\<close>

text \<open>
  \<^verbatim>\<open>Advertise\<close> binds one connect and one disconnect handler to each of the three
  topics. A history of subscriptions is a list of such events, handled in order.
\<close>

datatype connection_event =
    PointCloud_subscribe
  | PointCloud_unsubscribe
  | DepthImage_subscribe
  | DepthImage_unsubscribe
  | DepthInfo_subscribe
  | DepthInfo_unsubscribe

fun on_connection ::
  "connection_event \<Rightarrow> ('f, 'd) GazeboRosDepthCamera \<Rightarrow> ('f, 'd) GazeboRosDepthCamera" where
  "on_connection PointCloud_subscribe this = PointCloudConnect this"
| "on_connection PointCloud_unsubscribe this = PointCloudDisconnect this"
| "on_connection DepthImage_subscribe this = DepthImageConnect this"
| "on_connection DepthImage_unsubscribe this = DepthImageDisconnect this"
| "on_connection DepthInfo_subscribe this = DepthInfoConnect this"
| "on_connection DepthInfo_unsubscribe this = DepthInfoDisconnect this"

fun run_connections ::
  "connection_event list \<Rightarrow> ('f, 'd) GazeboRosDepthCamera \<Rightarrow> ('f, 'd) GazeboRosDepthCamera" where
  "run_connections [] this = this"
| "run_connections (e # es) this = run_connections es (on_connection e this)"

text \<open>The counter that an event's handler decrements, for the unsubscribe events.\<close>

fun unsubscribed_counter ::
  "connection_event \<Rightarrow> ('f, 'd) GazeboRosDepthCamera \<Rightarrow> int option" where
  "unsubscribed_counter PointCloud_unsubscribe this = Some (point_cloud_connect_count this)"
| "unsubscribed_counter DepthImage_unsubscribe this = Some (depth_image_connect_count this)"
| "unsubscribed_counter DepthInfo_unsubscribe this = Some (depth_info_connect_count this)"
| "unsubscribed_counter e this = None"

text \<open>
  A history in which every unsubscribe finds a subscriber to remove: the counter of its
  channel is positive when the event arrives.
\<close>

fun matched ::
  "connection_event list \<Rightarrow> ('f, 'd) GazeboRosDepthCamera \<Rightarrow> bool" where
  "matched [] this = True"
| "matched (e # es) this =
    ((case unsubscribed_counter e this of None \<Rightarrow> True | Some n \<Rightarrow> 0 < n) \<and>
     matched es (on_connection e this))"

definition counters_nonneg :: "('f, 'd) GazeboRosDepthCamera \<Rightarrow> bool" where
  "counters_nonneg this =
    (0 \<le> point_cloud_connect_count this \<and>
     0 \<le> depth_image_connect_count this \<and>
     0 \<le> depth_info_connect_count this)"

section \<open>Notation for the statements\<close>

text \<open>
  The initialisers of the locals \<^verbatim>\<open>fl\<close>, \<^verbatim>\<open>pAngle\<close> and \<^verbatim>\<open>yAngle\<close> of
  \<^verbatim>\<open>FillPointCloudHelper\<close>, as the source writes them (the two angles with the row
  respectively column count and index), and the point that \<^verbatim>\<open>OnNewRGBPointCloud\<close>
  reads at a float offset.
\<close>

abbreviation fl_of :: "('f, 'd) platform \<Rightarrow> nat \<Rightarrow> 'd \<Rightarrow> 'd" where
  "fl_of F w hfov \<equiv>
    d_divide F (d_of_u32 F w) (d_times F (d_two F) (d_tan F (d_divide F hfov (d_two F))))"

abbreviation angle_of :: "('f, 'd) platform \<Rightarrow> nat \<Rightarrow> 'd \<Rightarrow> nat \<Rightarrow> 'd" where
  "angle_of F n fl k \<equiv>
    (if n > 1
     then d_atan2 F (d_minus F (d_of_u32 F k) (d_times F (d_half F) (d_of_u32 F (n - 1)))) fl
     else d_zero F)"

abbreviation rgb_point :: "'f list \<Rightarrow> nat \<Rightarrow> 'f PointXYZRGB" where
  "rgb_point pcd k \<equiv>
    \<lparr>pt_x = pcd ! k, pt_y = pcd ! (k + 1), pt_z = pcd ! (k + 2),
     pt_colour = PackedRGB (pcd ! (k + 3))\<rparr>"

text \<open>The float that \<^verbatim>\<open>FillDepthImageHelper\<close> stores for the sample at position \<open>k\<close>.\<close>

abbreviation depth_value :: "('f, 'd::preorder) platform \<Rightarrow> 'd \<Rightarrow> 'f list \<Rightarrow> nat \<Rightarrow> 'f" where
  "depth_value F c src k \<equiv> (if c < d_of_f F (src ! k) then src ! k else f_quiet_NaN F)"

text \<open>The point that \<^verbatim>\<open>OnNewRGBPointCloud\<close> builds for column \<open>i\<close> and row \<open>j\<close>, with the offsets as the source computes them.\<close>

abbreviation rgb_read :: "'f list \<Rightarrow> nat \<Rightarrow> nat \<Rightarrow> nat \<Rightarrow> 'f PointXYZRGB" where
  "rgb_read pcd w i j \<equiv>
    \<lparr>pt_x = pcd ! u32 (4 * u32 (j * w + i)),
     pt_y = pcd ! u32 (4 * u32 (j * w + i) + 1),
     pt_z = pcd ! u32 (4 * u32 (j * w + i) + 2),
     pt_colour = PackedRGB (pcd ! u32 (4 * u32 (j * w + i) + 3))\<rparr>"

section \<open>A platform for concrete runs\<close>

text \<open>
  Real numbers with one NaN, compared the IEEE way, stand for both float types; the
  operations are exact and return NaN where the real operation is not defined. Time is
  compared in seconds. The serialiser keeps the header, the size and the dense flag.
\<close>

datatype fp = NaN | Num real

instantiation fp :: preorder
begin

definition less_fp :: "fp \<Rightarrow> fp \<Rightarrow> bool" where
  "less_fp a b = (case a of NaN \<Rightarrow> False | Num x \<Rightarrow> (case b of NaN \<Rightarrow> False | Num y \<Rightarrow> x < y))"

definition less_eq_fp :: "fp \<Rightarrow> fp \<Rightarrow> bool" where
  "less_eq_fp a b = (a = b \<or> a < b)"

instance
proof
  fix x y z :: fp
  show "(x < y) = (x \<le> y \<and> \<not> y \<le> x)"
    by (cases x; cases y) (auto simp: less_fp_def less_eq_fp_def)
  show "x \<le> x"
    by (simp add: less_eq_fp_def)
  show "x \<le> y \<Longrightarrow> y \<le> z \<Longrightarrow> x \<le> z"
    by (cases x; cases y; cases z) (auto simp: less_fp_def less_eq_fp_def)
qed

end

fun fp1 :: "(real \<Rightarrow> real) \<Rightarrow> fp \<Rightarrow> fp" where
  "fp1 f (Num x) = Num (f x)"
| "fp1 f NaN = NaN"

fun fp2 :: "(real \<Rightarrow> real \<Rightarrow> real) \<Rightarrow> fp \<Rightarrow> fp \<Rightarrow> fp" where
  "fp2 f (Num x) (Num y) = Num (f x y)"
| "fp2 f a b = NaN"

definition atan2 :: "real \<Rightarrow> real \<Rightarrow> real" where
  "atan2 y x =
    (if 0 < x then arctan (y / x)
     else if x < 0 \<and> 0 \<le> y then arctan (y / x) + pi
     else if x < 0 then arctan (y / x) - pi
     else if 0 < y then pi / 2
     else if y < 0 then - (pi / 2)
     else 0)"

definition exact_platform :: "(fp, fp) platform" where
  "exact_platform =
    \<lparr>d_of_f = (\<lambda>x. x),
     f_of_d = (\<lambda>x. x),
     d_of_u32 = (\<lambda>n. Num (real n)),
     d_zero = Num 0,
     d_half = Num (1 / 2),
     d_two = Num 2,
     d_minus = fp2 (\<lambda>x y. x - y),
     d_times = fp2 (\<lambda>x y. x * y),
     d_divide = (\<lambda>a b. if b = Num 0 then NaN else fp2 (\<lambda>x y. x / y) a b),
     d_tan = fp1 tan,
     d_atan2 = fp2 atan2,
     f_quiet_NaN = NaN,
     f_zero_bytes = Num 0,
     f_bits = (\<lambda>x. 0),
     time_minus = (\<lambda>a b. \<lparr>sec = sec a - sec b, nsec = nsec a - nsec b\<rparr>),
     time_ge = (\<lambda>t p. case p of NaN \<Rightarrow> False
                  | Num x \<Rightarrow> x \<le> real_of_int (sec t) + real_of_int (nsec t) / 1000000000),
     toROSMsg = (\<lambda>cloud msg.
        msg\<lparr>pc2_header := pc_header cloud,
            pc2_height := 1,
            pc2_width := u32 (length (points cloud)),
            pc2_is_dense := is_dense cloud\<rparr>)\<rparr>"

text \<open>
  A freshly constructed and loaded plugin on a 2 by 1 sensor with the default cutoff,
  nobody subscribed, the sensor inactive.
\<close>

definition empty_header :: Header where
  "empty_header = \<lparr>frame_id = [], stamp_sec = 0, stamp_nsec = 0\<rparr>"

definition idle_camera :: "(fp, fp) GazeboRosDepthCamera" where
  "idle_camera =
    GazeboRosDepthCamera_ctor
      \<lparr>point_cloud_connect_count = 0,
       depth_image_connect_count = 0,
       depth_info_connect_count = 0,
       image_connect_count = 0,
       last_depth_image_camera_info_update_time = \<lparr>sec = 0, nsec = 0\<rparr>,
       advertised = False,
       initialized = True,
       utils_width = 2,
       utils_height = 1,
       width = 2,
       height = 1,
       skip = 0,
       point_cloud_cutoff = Num (4 / 10),
       update_period = Num 1,
       frame_name = ''camera'',
       sensor_update_time = \<lparr>sec = 0, nsec = 0\<rparr>,
       depth_sensor_update_time = \<lparr>sec = 0, nsec = 0\<rparr>,
       image_msg_data = [],
       point_cloud_msg =
         \<lparr>pc2_header = empty_header, pc2_height = 0, pc2_width = 0, pc2_point_step = 32,
          pc2_row_step = 0, pc2_data = [], pc2_is_dense = False\<rparr>,
       depth_image_msg =
         \<lparr>img_header = empty_header, img_height = 0, img_width = 0, img_encoding = [],
          img_is_bigendian = 0, img_step = 0, img_data = []\<rparr>,
       sensor_active = False,
       sensor_last_update_time = \<lparr>sec = 5, nsec = 0\<rparr>,
       sensor_hfov = Num (pi / 2),
       world_sim_time = \<lparr>sec = 5, nsec = 0\<rparr>,
       effects = []\<rparr>"

section \<open>Properties of the loops\<close>

lemma for_loop_fold: "for_loop i n body s = fold body [i..<n] s"
proof (induction i n body s rule: for_loop.induct)
  case (1 i n body s)
  show ?case
  proof (cases "i < n")
    case True
    with "1" show ?thesis
      by (subst for_loop.simps) (simp add: upt_conv_Cons)
  next
    case False
    then show ?thesis by (subst for_loop.simps) simp
  qed
qed

lemma length_concat_rows:
  "length (concat (map (\<lambda>j. map (f j) [0..<C]) [0..<R])) = R * C"
  by (induction R) simp_all

lemma row_index_less: "i < C \<Longrightarrow> j < R \<Longrightarrow> j * C + i < R * (C::nat)"
proof -
  assume "i < C" "j < R"
  then have "j * C + i < Suc j * C" by simp
  also from \<open>j < R\<close> have "Suc j * C \<le> R * C"
    by (intro mult_le_mono1) simp
  finally show ?thesis .
qed

lemma nth_concat_rows:
  "i < C \<Longrightarrow> j < R \<Longrightarrow> concat (map (\<lambda>j. map (f j) [0..<C]) [0..<R]) ! (j * C + i) = f j i"
proof (induction R)
  case 0
  then show ?case by simp
next
  case (Suc R)
  show ?case
  proof (cases "j < R")
    case True
    with Suc show ?thesis
      by (simp add: nth_append length_concat_rows row_index_less)
  next
    case False
    with Suc.prems have "j = R" by simp
    with Suc.prems show ?thesis by (simp add: nth_append length_concat_rows)
  qed
qed

lemma cols_fold:
  "fold (FillPointCloud_pixel F c img R C src fl j pA) [0..<n] (idx, pc) =
    (idx + n,
     pc\<lparr>points := points pc @
            map (\<lambda>i. fst (FillPointCloud_point F c img R C fl j pA i (src ! (idx + i)))) [0..<n],
        is_dense := (is_dense pc \<and>
            (\<forall>i<n. snd (FillPointCloud_point F c img R C fl j pA i (src ! (idx + i)))))\<rparr>)"
proof (induction n)
  case 0
  then show ?case by simp
next
  case (Suc n)
  then show ?case
    by (cases "FillPointCloud_point F c img R C fl j pA n (src ! (idx + n))")
       (auto simp: FillPointCloud_pixel_def All_less_Suc)
qed

lemma rows_fold:
  "fold (\<lambda>j acc. fold (FillPointCloud_pixel F c img R C src fl j (pA j)) [0..<C] acc)
      [0..<m] (0, pc) =
    (m * C,
     pc\<lparr>points := points pc @
            concat (map (\<lambda>j. map (\<lambda>i. fst (FillPointCloud_point F c img R C fl j (pA j) i
                                        (src ! (j * C + i)))) [0..<C]) [0..<m]),
        is_dense := (is_dense pc \<and>
            (\<forall>j<m. \<forall>i<C. snd (FillPointCloud_point F c img R C fl j (pA j) i
                                 (src ! (j * C + i)))))\<rparr>)"
proof (induction m)
  case 0
  then show ?case by simp
next
  case (Suc m)
  then show ?case
    by (simp add: cols_fold All_less_Suc conj_commute conj_left_commute)
qed

lemma point_cloud_closed:
  "FillPointCloudHelper_point_cloud F w hfov c img msg R C step src =
    \<lparr>pc_header = pc2_header msg,
     points = concat (map (\<lambda>j. map (\<lambda>i. fst (FillPointCloud_point F c img R C (fl_of F w hfov) j
                 (angle_of F R (fl_of F w hfov) j) i (src ! (j * C + i)))) [0..<C]) [0..<R]),
     is_dense = (\<forall>j<R. \<forall>i<C. snd (FillPointCloud_point F c img R C (fl_of F w hfov) j
                 (angle_of F R (fl_of F w hfov) j) i (src ! (j * C + i))))\<rparr>"
  unfolding FillPointCloudHelper_point_cloud_def Let_def for_loop_fold
  by (simp only: rows_fold [where pA = "\<lambda>j. angle_of F R (fl_of F w hfov) j"]) simp

lemma u32_id: "n < 2 ^ 32 \<Longrightarrow> u32 n = n"
  by (simp add: u32_def)

lemma point_seen: "snd (FillPointCloud_point F c img R C fl j pA i s) = (c < d_of_f F s)"
  by (simp add: FillPointCloud_point_def Let_def)

lemma point_xyz:
  "pt_x (fst (FillPointCloud_point F c img R C fl j pA i s)) =
     (if c < d_of_f F s
      then f_of_d F (d_times F (d_of_f F s) (d_tan F (angle_of F C fl i)))
      else f_quiet_NaN F)"
  "pt_y (fst (FillPointCloud_point F c img R C fl j pA i s)) =
     (if c < d_of_f F s then f_of_d F (d_times F (d_of_f F s) (d_tan F pA))
      else f_quiet_NaN F)"
  "pt_z (fst (FillPointCloud_point F c img R C fl j pA i s)) =
     (if c < d_of_f F s then f_of_d F (d_of_f F s) else f_quiet_NaN F)"
  by (simp_all add: FillPointCloud_point_def Let_def)

lemma point_colour:
  "pt_colour (fst (FillPointCloud_point F c img R C fl j pA i s)) =
     (if length img = u32 (R * C * 3)
      then RGB (img ! u32 (i * 3 + j * C * 3 + 0)) (img ! u32 (i * 3 + j * C * 3 + 1))
               (img ! u32 (i * 3 + j * C * 3 + 2))
      else if length img = u32 (R * C)
      then RGB (img ! u32 (i + j * C)) (img ! u32 (i + j * C)) (img ! u32 (i + j * C))
      else RGB 0 0 0)"
  by (simp add: FillPointCloud_point_def Let_def)

lemma cloud_nth:
  "i < C \<Longrightarrow> j < R \<Longrightarrow>
    points (FillPointCloudHelper_point_cloud F w hfov c img msg R C step src) ! (j * C + i) =
      fst (FillPointCloud_point F c img R C (fl_of F w hfov) j
             (angle_of F R (fl_of F w hfov) j) i (src ! (j * C + i)))"
  by (simp only: point_cloud_closed PointCloud.simps nth_concat_rows)

lemma cloud_dense:
  "is_dense (FillPointCloudHelper_point_cloud F w hfov c img msg R C step src) =
    (\<forall>j<R. \<forall>i<C. c < d_of_f F (src ! (j * C + i)))"
  by (simp only: point_cloud_closed PointCloud.simps point_seen)

lemma length_resize: "length (resize n z xs) = n"
  by (simp add: resize_def)

lemma for_loop_fold_fun: "for_loop i n body = fold body [i..<n]"
  by (rule ext) (rule for_loop_fold)

lemma update_at_boundary:
  assumes "N < length old"
  shows "(map g [0..<N] @ drop N old)[N := v] = map g [0..<N] @ v # drop (Suc N) old"
proof -
  have "drop N old = old ! N # drop (Suc N) old"
    using assms by (simp add: Cons_nth_drop_Suc)
  then show ?thesis
    by (simp add: list_update_append)
qed

lemma depth_pixel_step:
  "FillDepthImage_pixel F c C src j i (idx, m) =
    (idx + 1,
     m\<lparr>img_data := (img_data m)[u32 (i + j * C) :=
            (if c < d_of_f F (src ! idx) then src ! idx else f_quiet_NaN F)]\<rparr>)"
  by (simp add: FillDepthImage_pixel_def Let_def)

lemma depth_cols_fold:
  assumes "j * C + n \<le> length old" and "length old \<le> 2 ^ 32"
    and "img_data m = map (depth_value F c src) [0..<j * C] @ drop (j * C) old"
  shows "fold (FillDepthImage_pixel F c C src j) [0..<n] (j * C, m) =
    (j * C + n,
     m\<lparr>img_data := map (depth_value F c src) [0..<j * C + n] @ drop (j * C + n) old\<rparr>)"
  using assms(1)
proof (induction n)
  case 0
  then show ?case using assms(3) by simp
next
  case (Suc n)
  then have lt: "j * C + n < length old" by simp
  with assms(2) have "n + j * C < 2 ^ 32" by simp
  then have u: "u32 (n + j * C) = j * C + n"
    by (simp add: u32_id add.commute)
  from Suc lt show ?case
    by (simp add: depth_pixel_step u update_at_boundary [OF lt])
qed

lemma depth_rows_fold:
  assumes "r * C \<le> length old" and "length old \<le> 2 ^ 32" and "img_data m = old"
  shows "fold (\<lambda>j. fold (FillDepthImage_pixel F c C src j) [0..<C]) [0..<r] (0, m) =
    (r * C, m\<lparr>img_data := map (depth_value F c src) [0..<r * C] @ drop (r * C) old\<rparr>)"
  using assms(1)
proof (induction r)
  case 0
  then show ?case using assms(3) by simp
next
  case (Suc r)
  then have le: "r * C + C \<le> length old" by (simp add: add.commute)
  then have "r * C \<le> length old" by simp
  with Suc have IH: "fold (\<lambda>j. fold (FillDepthImage_pixel F c C src j) [0..<C]) [0..<r] (0, m) =
    (r * C, m\<lparr>img_data := map (depth_value F c src) [0..<r * C] @ drop (r * C) old\<rparr>)"
    by simp
  show ?case
    using depth_cols_fold [OF le assms(2),
        where m = "m\<lparr>img_data := map (depth_value F c src) [0..<r * C] @ drop (r * C) old\<rparr>"
          and F = F and c = c and src = src]
    by (simp add: IH add.commute)
qed

lemma depth_image_closed:
  assumes "H * W < 2 ^ 32"
  shows "FillDepthImageHelper F c msg H W step src =
    (FillDepthImage_metadata F msg H W)\<lparr>img_data := map (depth_value F c src) [0..<H * W]\<rparr>"
proof -
  let ?old = "resize (u32 (H * W)) (f_zero_bytes F) (img_data msg)"
  have len: "length ?old = H * W"
    using assms by (simp add: length_resize u32_id)
  have "fold (\<lambda>j. fold (FillDepthImage_pixel F c W src j) [0..<W]) [0..<H]
          (0, FillDepthImage_metadata F msg H W) =
        (H * W, (FillDepthImage_metadata F msg H W)
           \<lparr>img_data := map (depth_value F c src) [0..<H * W] @ drop (H * W) ?old\<rparr>)"
    using assms by (intro depth_rows_fold) (simp_all add: len FillDepthImage_metadata_def)
  then show ?thesis
    by (simp add: FillDepthImageHelper_def for_loop_fold for_loop_fold_fun len)
qed

lemma exact_platform_sel:
  "d_of_f exact_platform x = x"
  "f_of_d exact_platform x = x"
  "f_quiet_NaN exact_platform = NaN"
  "f_zero_bytes exact_platform = Num 0"
  by (simp_all add: exact_platform_def)

lemma rgb_pixel_fst:
  "fst (OnNewRGBPointCloud_pixel F pcd w h i j acc) =
    (fst acc)\<lparr>points := points (fst acc) @ [rgb_read pcd w i j]\<rparr>"
  by (cases acc) (simp add: OnNewRGBPointCloud_pixel_def Let_def)

lemma rgb_rows_fold:
  "fst (fold (OnNewRGBPointCloud_pixel F pcd w h i) [0..<n] acc) =
    (fst acc)\<lparr>points := points (fst acc) @ map (rgb_read pcd w i) [0..<n]\<rparr>"
  by (induction n) (simp_all add: rgb_pixel_fst)

lemma rgb_cols_fold:
  "fst (fold (\<lambda>i. fold (OnNewRGBPointCloud_pixel F pcd w h i) [0..<h]) [0..<m] acc) =
    (fst acc)\<lparr>points := points (fst acc) @
       concat (map (\<lambda>i. map (rgb_read pcd w i) [0..<h]) [0..<m])\<rparr>"
  by (induction m) (simp_all add: rgb_rows_fold)

lemma rgb_read_exact:
  assumes "i < w" and "j < h" and "4 * (w * h) \<le> 2 ^ 32"
  shows "rgb_read pcd w i j = rgb_point pcd (4 * (j * w + i))"
proof -
  from assms(1,2) have "j * w + i < h * w" by (rule row_index_less)
  with assms(3) have b: "4 * (j * w + i) + 3 < 2 ^ 32"
    by (simp add: mult.commute)
  then have "u32 (j * w + i) = j * w + i" "u32 (4 * (j * w + i)) = 4 * (j * w + i)"
    "u32 (4 * (j * w + i) + 1) = 4 * (j * w + i) + 1"
    "u32 (4 * (j * w + i) + 2) = 4 * (j * w + i) + 2"
    "u32 (4 * (j * w + i) + 3) = 4 * (j * w + i) + 3"
    by (simp_all add: u32_id)
  then show ?thesis by simp
qed

lemma rgb_loops_closed:
  assumes "4 * (w * h) \<le> 2 ^ 32"
  shows "fst (OnNewRGBPointCloud_loops F pcd w h acc) =
    (fst acc)\<lparr>points := points (fst acc) @
       map (\<lambda>(i, j). rgb_point pcd (4 * (j * w + i))) (List.product [0..<w] [0..<h])\<rparr>"
proof -
  have row: "map (rgb_read pcd w i) [0..<h] =
        map (\<lambda>j. rgb_point pcd (4 * (j * w + i))) [0..<h]" if "i < w" for i
  proof (rule map_cong [OF refl])
    fix j assume "j \<in> set [0..<h]"
    then have "j < h" by simp
    with that show "rgb_read pcd w i j = rgb_point pcd (4 * (j * w + i))"
      using assms by (rule rgb_read_exact)
  qed
  have "map (\<lambda>i. map (rgb_read pcd w i) [0..<h]) [0..<w] =
        map (\<lambda>i. map (\<lambda>j. rgb_point pcd (4 * (j * w + i))) [0..<h]) [0..<w]"
  proof (rule map_cong [OF refl])
    fix i assume "i \<in> set [0..<w]"
    then have "i < w" by simp
    then show "map (rgb_read pcd w i) [0..<h] =
        map (\<lambda>j. rgb_point pcd (4 * (j * w + i))) [0..<h]"
      by (rule row)
  qed
  then have "concat (map (\<lambda>i. map (rgb_read pcd w i) [0..<h]) [0..<w]) =
        concat (map (\<lambda>i. map (\<lambda>j. rgb_point pcd (4 * (j * w + i))) [0..<h]) [0..<w])"
    by (rule arg_cong)
  then show ?thesis
    by (simp add: OnNewRGBPointCloud_loops_def for_loop_fold for_loop_fold_fun rgb_cols_fold
          product_concat_map map_concat comp_def)
qed

lemma row_major_product:
  "concat (map (\<lambda>j. map (f j) [0..<C]) [0..<R]) =
     map (\<lambda>(j, i). f j i) (List.product [0..<R] [0..<C])"
  by (simp add: product_concat_map map_concat comp_def)

lemma orders_differ:
  assumes "1 < W" and "1 < H"
  shows "List.product [0..<W] [0..<H] \<noteq> map prod.swap (List.product [0..<H] [0..<W])"
proof
  assume eq: "List.product [0..<W] [0..<H] = map prod.swap (List.product [0..<H] [0..<W])"
  have l: "List.product [0..<W] [0..<H] ! (0 * H + 1) = (0, 1)"
    unfolding product_concat_map using assms by (subst nth_concat_rows) simp_all
  have "List.product [0..<H] [0..<W] ! (0 * W + 1) = (0, 1)"
    unfolding product_concat_map using assms by (subst nth_concat_rows) simp_all
  moreover have "1 < length (List.product [0..<H] [0..<W])"
    using assms one_less_mult [of W H] by simp
  ultimately have r: "map prod.swap (List.product [0..<H] [0..<W]) ! (0 * H + 1) = (1, 0)"
    by simp
  from l r eq show False by simp
qed

section \<open>Properties of the callbacks\<close>

lemmas handler_defs =
  PointCloudConnect_def PointCloudDisconnect_def DepthImageConnect_def
  DepthImageDisconnect_def DepthInfoConnect_def DepthInfoDisconnect_def
  parentSensor_SetActive_def emit_def Advertise_def

lemma idle_camera_sel:
  "point_cloud_connect_count idle_camera = 0"
  "depth_image_connect_count idle_camera = 0"
  "depth_info_connect_count idle_camera = 0"
  "image_connect_count idle_camera = 0"
  "advertised idle_camera = False"
  "initialized idle_camera = True"
  "utils_width idle_camera = 2"
  "utils_height idle_camera = 1"
  "sensor_active idle_camera = False"
  "effects idle_camera = []"
  by (simp_all add: idle_camera_def GazeboRosDepthCamera_ctor_def)

lemma run_connections_append:
  "run_connections (es @ fs) this = run_connections fs (run_connections es this)"
  by (induction es arbitrary: this) simp_all

lemma on_connection_nonneg:
  "counters_nonneg this \<Longrightarrow> matched [e] this \<Longrightarrow> counters_nonneg (on_connection e this)"
  by (cases e)
     (auto simp: counters_nonneg_def PointCloudConnect_def PointCloudDisconnect_def
        DepthImageConnect_def DepthImageDisconnect_def DepthInfoConnect_def
        DepthInfoDisconnect_def parentSensor_SetActive_def emit_def Let_def)

lemma run_connections_nonneg:
  "counters_nonneg this \<Longrightarrow> matched es this \<Longrightarrow> counters_nonneg (run_connections es this)"
proof (induction es arbitrary: this)
  case Nil
  then show ?case by simp
next
  case (Cons e es)
  from Cons.prems have "counters_nonneg (on_connection e this)"
    by (intro on_connection_nonneg) simp_all
  with Cons show ?case by simp
qed

lemma matched_take: "matched es this \<Longrightarrow> matched (take n es) this"
proof (induction es arbitrary: n this)
  case Nil
  then show ?case by simp
next
  case (Cons e es)
  then show ?case by (cases n) simp_all
qed

section \<open>The geometric converter: coordinates, order and colour\<close>

text \<open>
  Claim C1. For a depth buffer \<open>src\<close> of width \<open>W\<close> and height \<open>H\<close>, a cutoff \<open>c\<close> and a
  horizontal field of view \<open>hfov\<close>, the converter computes \<open>fl = W / (2 * tan (hfov / 2))\<close>,
  \<open>pAngle = atan2 (j - 0.5 * (H - 1)) fl\<close> (zero when \<open>H = 1\<close>) and
  \<open>yAngle = atan2 (i - 0.5 * (W - 1)) fl\<close> (zero when \<open>W = 1\<close>). The point of pixel
  \<open>(i, j)\<close>, which is the point at position \<open>j * W + i\<close>, is built from the sample \<open>d\<close> at
  that position: when \<open>d > c\<close> it has \<open>x = d * tan yAngle\<close>, \<open>y = d * tan pAngle\<close> and
  \<open>z = d\<close>, each narrowed to float; otherwise \<open>x\<close>, \<open>y\<close> and \<open>z\<close> are the quiet NaN and
  the dense flag of the output is cleared. The test is strict: a sample equal to the
  cutoff gives the NaN point. The dense flag of the output is set exactly when every
  sample passes the test. As at the call in \<^verbatim>\<open>FillPointdCloud\<close>, the member \<^verbatim>\<open>width\<close>
  is the column count \<open>W\<close>.
\<close>

theorem geometric_projection:
  fixes F :: "('f, 'd::preorder) platform"
    and W H step i j :: nat and hfov c :: 'd and img :: "uint8 list" and msg :: PointCloud2
    and src :: "'f list"
  defines "cloud \<equiv> FillPointCloudHelper_point_cloud F W hfov c img msg H W step src"
  defines "fl \<equiv> d_divide F (d_of_u32 F W)
                   (d_times F (d_two F) (d_tan F (d_divide F hfov (d_two F))))"
  defines "pAngle \<equiv>
    (if H = 1 then d_zero F
     else d_atan2 F (d_minus F (d_of_u32 F j) (d_times F (d_half F) (d_of_u32 F (H - 1)))) fl)"
  defines "yAngle \<equiv>
    (if W = 1 then d_zero F
     else d_atan2 F (d_minus F (d_of_u32 F i) (d_times F (d_half F) (d_of_u32 F (W - 1)))) fl)"
  defines "d \<equiv> d_of_f F (src ! (j * W + i))"
  defines "p \<equiv> points cloud ! (j * W + i)"
  assumes "i < W" and "j < H"
  shows "(if c < d
          then pt_x p = f_of_d F (d_times F d (d_tan F yAngle)) \<and>
               pt_y p = f_of_d F (d_times F d (d_tan F pAngle)) \<and>
               pt_z p = f_of_d F d
          else pt_x p = f_quiet_NaN F \<and> pt_y p = f_quiet_NaN F \<and> pt_z p = f_quiet_NaN F \<and>
               \<not> is_dense cloud) \<and>
         (d = c \<longrightarrow> pt_x p = f_quiet_NaN F \<and> pt_y p = f_quiet_NaN F \<and> pt_z p = f_quiet_NaN F) \<and>
         is_dense cloud = (\<forall>j<H. \<forall>i<W. c < d_of_f F (src ! (j * W + i)))"
proof -
  from assms(7,8) have W: "(1 < W) = (W \<noteq> 1)" and H: "(1 < H) = (H \<noteq> 1)"
    by auto
  have p: "p = fst (FillPointCloud_point F c img H W fl j pAngle i (src ! (j * W + i)))"
    unfolding p_def cloud_def fl_def pAngle_def
    using assms(7,8) by (simp add: cloud_nth H)
  have dense: "is_dense cloud = (\<forall>j<H. \<forall>i<W. c < d_of_f F (src ! (j * W + i)))"
    unfolding cloud_def by (rule cloud_dense)
  have cleared: "\<not> c < d \<Longrightarrow> \<not> is_dense cloud"
    unfolding dense d_def using assms(7,8) by blast
  show ?thesis
    using cleared dense assms(7,8)
    by (auto simp: p point_xyz d_def yAngle_def)
qed



theorem geometric_projection_witness:
  "(0::nat) < 2 \<and> (1::nat) < 2 \<and> (0::nat) < 1 \<and>
   (let cloud = FillPointCloudHelper_point_cloud exact_platform 2 (Num (pi / 2)) (Num (4 / 10))
                  [] (point_cloud_msg idle_camera) 1 2 0 [Num 1, Num (4 / 10)]
    in pt_x (points cloud ! 0) = Num (- (1 / 2)) \<and> pt_y (points cloud ! 0) = Num 0 \<and>
       pt_z (points cloud ! 0) = Num 1 \<and>
       pt_x (points cloud ! 1) = NaN \<and> pt_y (points cloud ! 1) = NaN \<and>
       pt_z (points cloud ! 1) = NaN \<and> \<not> is_dense cloud)"
  using
    geometric_projection [where F = exact_platform and W = 2 and H = 1 and i = 0 and j = 0
      and hfov = "Num (pi / 2)" and c = "Num (4 / 10)" and img = "[]"
      and msg = "point_cloud_msg idle_camera" and step = 0 and src = "[Num 1, Num (4 / 10)]"]
    geometric_projection [where F = exact_platform and W = 2 and H = 1 and i = 1 and j = 0
      and hfov = "Num (pi / 2)" and c = "Num (4 / 10)" and img = "[]"
      and msg = "point_cloud_msg idle_camera" and step = 0 and src = "[Num 1, Num (4 / 10)]"]
  by (simp add: exact_platform_def less_fp_def atan2_def tan_45 tan_arctan Let_def)

text \<open>
  Claim C4. Whatever the cutoff marks invalid, the output of the converter for \<open>H\<close> rows
  and \<open>W\<close> columns has exactly \<open>H * W\<close> points, and they are the points of the pixels in
  row-major order: row \<open>j\<close> outside, column \<open>i\<close> inside, the point of pixel \<open>(i, j)\<close>
  built from the sample at \<open>j * W + i\<close>. This cloud is what the helper serialises into
  the message.
\<close>

theorem row_major_output:
  "length (points (FillPointCloudHelper_point_cloud F w hfov c img msg H W step src)) = H * W \<and>
   points (FillPointCloudHelper_point_cloud F w hfov c img msg H W step src) =
     concat (map (\<lambda>j. map (\<lambda>i. fst (FillPointCloud_point F c img H W (fl_of F w hfov) j
                 (angle_of F H (fl_of F w hfov) j) i (src ! (j * W + i)))) [0..<W]) [0..<H]) \<and>
   FillPointCloudHelper F w hfov c img msg H W step src =
     toROSMsg F (FillPointCloudHelper_point_cloud F w hfov c img msg H W step src) msg"
  by (simp only: point_cloud_closed PointCloud.simps length_concat_rows
        FillPointCloudHelper_def simp_thms)

text \<open>
  Claim C6. For the point of pixel \<open>(i, j)\<close>: when the stored colour image has exactly
  \<open>H * W * 3\<close> bytes, \<open>r\<close>, \<open>g\<close> and \<open>b\<close> are its bytes at \<open>i * 3 + j * W * 3\<close> and the two
  offsets after it, all inside the image; when it has exactly \<open>H * W\<close> bytes, the byte at
  \<open>i + j * W\<close> is copied into all three; for every other size the point is black. The
  sizes are those a 32-bit size test can tell apart: \<open>H * W * 3\<close> is below \<open>2 ^ 32\<close>.
\<close>

theorem point_colouring:
  fixes F :: "('f, 'd::preorder) platform"
    and w W H step i j :: nat and hfov c :: 'd and img :: "uint8 list" and msg :: PointCloud2
    and src :: "'f list"
  defines "p \<equiv> points (FillPointCloudHelper_point_cloud F w hfov c img msg H W step src)
                 ! (j * W + i)"
  defines "k \<equiv> i * 3 + j * W * 3"
  assumes "i < W" and "j < H" and "H * W * 3 < 2 ^ 32"
  shows "(length img = H * W * 3 \<longrightarrow>
            k + 2 < length img \<and> pt_colour p = RGB (img ! k) (img ! (k + 1)) (img ! (k + 2))) \<and>
         (length img = H * W \<longrightarrow>
            i + j * W < length img \<and>
            pt_colour p = RGB (img ! (i + j * W)) (img ! (i + j * W)) (img ! (i + j * W))) \<and>
         (length img \<noteq> H * W * 3 \<and> length img \<noteq> H * W \<longrightarrow> pt_colour p = RGB 0 0 0)"
proof -
  from assms(3,4) have idx: "j * W + i < H * W"
    by (rule row_index_less)
  from assms(3,4) have pos: "0 < H * W" by auto
  have k2: "k + 2 < H * W * 3"
    using idx unfolding k_def by simp
  from pos assms(5) have small: "H * W < 2 ^ 32" by simp
  have u3: "u32 (H * W * 3) = H * W * 3" and u1: "u32 (H * W) = H * W"
    using assms(5) small by (simp_all add: u32_id)
  have uk: "u32 (k + 0) = k" "u32 (k + 1) = k + 1" "u32 (k + 2) = k + 2"
    using k2 assms(5) by (simp_all add: u32_id)
  have um: "u32 (i + j * W) = i + j * W"
    using idx small by (simp add: u32_id add.commute)
  have p: "pt_colour p =
     (if length img = H * W * 3 then RGB (img ! k) (img ! (k + 1)) (img ! (k + 2))
      else if length img = H * W
      then RGB (img ! (i + j * W)) (img ! (i + j * W)) (img ! (i + j * W))
      else RGB 0 0 0)"
    unfolding p_def using assms(3,4) uk
    by (simp only: cloud_nth point_colour u3 u1 um k_def)
  from pos have ne: "H * W * 3 \<noteq> H * W" by simp
  show ?thesis
    using k2 idx ne by (auto simp: p add.commute)
qed

theorem point_colouring_witness:
  "(1::nat) < 2 \<and> (0::nat) < 1 \<and> (1::nat) * 2 * 3 < 2 ^ 32 \<and>
   pt_colour (points (FillPointCloudHelper_point_cloud exact_platform 2 (Num (pi / 2))
       (Num (4 / 10)) [10, 20, 30, 40, 50, 60] (point_cloud_msg idle_camera) 1 2 0
       [Num 1, Num 2]) ! 1) = RGB 40 50 60 \<and>
   pt_colour (points (FillPointCloudHelper_point_cloud exact_platform 2 (Num (pi / 2))
       (Num (4 / 10)) [7, 9] (point_cloud_msg idle_camera) 1 2 0
       [Num 1, Num 2]) ! 1) = RGB 9 9 9 \<and>
   pt_colour (points (FillPointCloudHelper_point_cloud exact_platform 2 (Num (pi / 2))
       (Num (4 / 10)) [7, 9, 11] (point_cloud_msg idle_camera) 1 2 0
       [Num 1, Num 2]) ! 1) = RGB 0 0 0"
  using
    point_colouring [where F = exact_platform and w = 2 and W = 2 and H = 1 and i = 1 and j = 0
      and hfov = "Num (pi / 2)" and c = "Num (4 / 10)" and img = "[10, 20, 30, 40, 50, 60]"
      and msg = "point_cloud_msg idle_camera" and step = 0 and src = "[Num 1, Num 2]"]
    point_colouring [where F = exact_platform and w = 2 and W = 2 and H = 1 and i = 1 and j = 0
      and hfov = "Num (pi / 2)" and c = "Num (4 / 10)" and img = "[7, 9]"
      and msg = "point_cloud_msg idle_camera" and step = 0 and src = "[Num 1, Num 2]"]
    point_colouring [where F = exact_platform and w = 2 and W = 2 and H = 1 and i = 1 and j = 0
      and hfov = "Num (pi / 2)" and c = "Num (4 / 10)" and img = "[7, 9, 11]"
      and msg = "point_cloud_msg idle_camera" and step = 0 and src = "[Num 1, Num 2]"]
  by simp


section \<open>The depth-image converter and the camera info\<close>

text \<open>
  Claim C7. For \<open>H\<close> rows and \<open>W\<close> columns and a cutoff \<open>c\<close>, the depth-image converter
  writes to position \<open>i + j * W\<close> of the output the sample of that position unchanged
  when it is strictly greater than \<open>c\<close> and the quiet NaN otherwise. The output has
  \<open>H * W\<close> floats in row-major order, the encoding \<^verbatim>\<open>32FC1\<close>, height \<open>H\<close>, width \<open>W\<close> and
  a row stride of four bytes times \<open>W\<close>. These metadata are already those of the message
  \<open>m0\<close> that the loops start from, and the loops change nothing but the data. The byte
  size \<open>H * W * 4\<close> of the image is below \<open>2 ^ 32\<close>.
\<close>

theorem depth_image_normalisation:
  fixes F :: "('f, 'd::preorder) platform"
    and W H step i j :: nat and c :: 'd and msg :: "'f Image" and src :: "'f list"
  defines "out \<equiv> FillDepthImageHelper F c msg H W step src"
  defines "m0 \<equiv> FillDepthImage_metadata F msg H W"
  assumes "i < W" and "j < H" and "H * W * 4 < 2 ^ 32"
  shows "img_data out ! (i + j * W) =
           (if c < d_of_f F (src ! (i + j * W)) then src ! (i + j * W) else f_quiet_NaN F) \<and>
         length (img_data out) = H * W \<and>
         img_encoding out = TYPE_32FC1 \<and> img_height out = H \<and> img_width out = W \<and>
         img_step out = 4 * W \<and>
         img_encoding m0 = TYPE_32FC1 \<and> img_height m0 = H \<and> img_width m0 = W \<and>
         img_step m0 = 4 * W \<and> length (img_data m0) = H * W \<and>
         out = m0\<lparr>img_data := img_data out\<rparr>"
proof -
  from assms(3,4) have idx: "j * W + i < H * W"
    by (rule row_index_less)
  from assms(5) have small: "H * W < 2 ^ 32" by simp
  from assms(4) have "W \<le> H * W" by (cases H) simp_all
  with assms(5) have "4 * W < 2 ^ 32" by arith
  then have step: "u32 (4 * W) = 4 * W" by (rule u32_id)
  have out: "out = m0\<lparr>img_data := map (depth_value F c src) [0..<H * W]\<rparr>"
    unfolding out_def m0_def using small by (rule depth_image_closed)
  have m0: "img_encoding m0 = TYPE_32FC1" "img_height m0 = H" "img_width m0 = W"
    "img_step m0 = 4 * W" "length (img_data m0) = H * W"
    using small by (simp_all add: m0_def FillDepthImage_metadata_def step length_resize u32_id)
  from idx have "i + j * W < H * W" by (simp add: add.commute)
  then show ?thesis
    by (simp add: out m0)
qed

theorem depth_image_normalisation_witness:
  "(1::nat) < 2 \<and> (0::nat) < 1 \<and> (1::nat) * 2 * 4 < 2 ^ 32 \<and>
   (let out = FillDepthImageHelper exact_platform (Num (4 / 10)) (depth_image_msg idle_camera)
                1 2 0 [Num (4 / 10), Num 2]
    in img_data out ! 0 = NaN \<and> img_data out ! 1 = Num 2 \<and> length (img_data out) = 2 \<and>
       img_encoding out = ''32FC1'' \<and> img_height out = 1 \<and> img_width out = 2 \<and>
       img_step out = 8)"
  using
    depth_image_normalisation [where F = exact_platform and W = 2 and H = 1 and i = 0
      and j = 0 and c = "Num (4 / 10)" and msg = "depth_image_msg idle_camera" and step = 0
      and src = "[Num (4 / 10), Num 2]"]
    depth_image_normalisation [where F = exact_platform and W = 2 and H = 1 and i = 1
      and j = 0 and c = "Num (4 / 10)" and msg = "depth_image_msg idle_camera" and step = 0
      and src = "[Num (4 / 10), Num 2]"]
  by (simp add: exact_platform_sel less_fp_def TYPE_32FC1_def Let_def)

text \<open>
  Claim C8. \<^verbatim>\<open>PublishCameraInfo\<close> first calls the generic publisher of the base class,
  whatever the counters and the times are. It then publishes the depth camera info
  exactly when the depth camera-info counter is positive and the simulation time
  elapsed since the last such publish is at least the update period; when it does, the
  time of the last publish becomes the current simulation time, and otherwise stays.
\<close>

theorem depth_camera_info_rate_limit:
  fixes F :: "('f, 'd) platform" and this :: "('f, 'd) GazeboRosDepthCamera"
  defines "due \<equiv> 0 < depth_info_connect_count this \<and>
             time_ge F (time_minus F (world_sim_time this)
                          (last_depth_image_camera_info_update_time this))
               (update_period this)"
  shows "effects (PublishCameraInfo F this) =
           effects this @ [Utils_PublishCameraInfo] @
             (if due then [Utils_PublishCameraInfo_depth] else []) \<and>
         (Utils_PublishCameraInfo_depth \<in>
            set (drop (length (effects this)) (effects (PublishCameraInfo F this)))) = due \<and>
         last_depth_image_camera_info_update_time (PublishCameraInfo F this) =
           (if due then world_sim_time this
            else last_depth_image_camera_info_update_time this)"
  by (simp add: PublishCameraInfo_def emit_def Let_def due_def)

section \<open>Connections and activation\<close>

text \<open>
  Claim C2. The claim: a point-cloud unsubscribe that brings the point-cloud counter to
  zero requests deactivation of the sensor only if no other channel, the depth-image
  channel in particular, still has a positive counter; a depth-image unsubscribe never
  requests deactivation. What the code does: \<^verbatim>\<open>PointCloudDisconnect\<close> requests
  deactivation whenever its own counter is at most zero after the decrement, whatever
  the depth-image counter is, which it leaves as it was; \<^verbatim>\<open>DepthImageDisconnect\<close>
  requests nothing.
\<close>

theorem PointCloudDisconnect_deactivation:
  "effects (PointCloudDisconnect this) =
     effects this @ (if point_cloud_connect_count this \<le> 1 then [SetActive False] else []) \<and>
   sensor_active (PointCloudDisconnect this) =
     (if point_cloud_connect_count this \<le> 1 then False else sensor_active this) \<and>
   depth_image_connect_count (PointCloudDisconnect this) = depth_image_connect_count this \<and>
   effects (DepthImageDisconnect this) = effects this \<and>
   sensor_active (DepthImageDisconnect this) = sensor_active this"
  by (simp add: handler_defs Let_def)

text \<open>
  With one depth-image and one point-cloud subscriber on an active sensor, the
  point-cloud unsubscribe requests deactivation although the depth-image counter is
  still one, and the next depth frame neither publishes nor reactivates the sensor.
\<close>

theorem PointCloudDisconnect_deactivation_witness:
  "(let s = run_connections [DepthImage_subscribe, PointCloud_subscribe] idle_camera;
        s' = PointCloudDisconnect s;
        s'' = OnNewDepthFrame exact_platform s' [Num 1, Num 2] 2 1 1 ''FLOAT32''
    in depth_image_connect_count s = 1 \<and> point_cloud_connect_count s = 1 \<and> sensor_active s \<and>
       point_cloud_connect_count s' = 0 \<and> depth_image_connect_count s' = 1 \<and>
       effects s' = effects s @ [SetActive False] \<and> \<not> sensor_active s' \<and>
       effects s'' = effects s' @ [Advertised] \<and> \<not> sensor_active s'')"
  using PointCloudDisconnect_deactivation
    [where this = "run_connections [DepthImage_subscribe, PointCloud_subscribe] idle_camera"]
  by (simp add: Let_def handler_defs idle_camera_sel OnNewDepthFrame_def)

text \<open>
  Claim C3. The claim: in the depth-frame callback on an inactive sensor, activation is
  requested if and only if the point-cloud or the depth-image counter is positive, and
  never when every counter is zero. What the code does: on an initialised plugin with an
  inactive sensor, \<^verbatim>\<open>OnNewDepthFrame\<close> registers the topics if it has not yet and
  requests activation exactly when the point-cloud counter is positive or the
  depth-image counter is at most zero.
\<close>

theorem OnNewDepthFrame_inactive:
  assumes "initialized this" and "0 < utils_height this" and "0 < utils_width this"
    and "\<not> sensor_active this"
  shows "effects (OnNewDepthFrame F this img w h d fmt) =
           effects this @ (if advertised this then [] else [Advertised]) @
             (if 0 < point_cloud_connect_count this \<or> depth_image_connect_count this \<le> 0
              then [SetActive True] else [])"
  using assms by (simp add: OnNewDepthFrame_def handler_defs Let_def)

text \<open>
  With every counter zero the callback requests activation, and with only a depth-image
  subscriber it does not.
\<close>

theorem OnNewDepthFrame_inactive_witness:
  "(let s0 = idle_camera;
        s1 = OnNewDepthFrame exact_platform s0 [Num 1, Num 2] 2 1 1 ''FLOAT32'';
        t0 = (DepthImageConnect idle_camera)\<lparr>sensor_active := False\<rparr>;
        t1 = OnNewDepthFrame exact_platform t0 [Num 1, Num 2] 2 1 1 ''FLOAT32''
    in initialized s0 \<and> 0 < utils_height s0 \<and> 0 < utils_width s0 \<and>
       \<not> sensor_active s0 \<and> point_cloud_connect_count s0 = 0 \<and>
       depth_image_connect_count s0 = 0 \<and> image_connect_count s0 = 0 \<and>
       depth_info_connect_count s0 = 0 \<and>
       effects s1 = effects s0 @ [Advertised, SetActive True] \<and>
       initialized t0 \<and> 0 < utils_height t0 \<and> 0 < utils_width t0 \<and>
       \<not> sensor_active t0 \<and> point_cloud_connect_count t0 = 0 \<and>
       depth_image_connect_count t0 = 1 \<and>
       effects t1 = effects t0 @ [Advertised])"
  using
    OnNewDepthFrame_inactive [where this = idle_camera and F = exact_platform
      and img = "[Num 1, Num 2]" and w = 2 and h = 1 and d = 1 and fmt = "''FLOAT32''"]
    OnNewDepthFrame_inactive
      [where this = "(DepthImageConnect idle_camera)\<lparr>sensor_active := False\<rparr>"
       and F = exact_platform and img = "[Num 1, Num 2]" and w = 2 and h = 1 and d = 1
       and fmt = "''FLOAT32''"]
  by (simp add: Let_def handler_defs idle_camera_sel)

text \<open>
  Claim C5. Start with the sensor inactive and the counters zero. A point-cloud
  subscribe requests activation and converts nothing: the message is untouched. The
  frame callback that follows is the first to convert and publish. The point-cloud
  unsubscribe then brings the counter back to zero, no other channel has a subscriber,
  and deactivation is requested. Where the sensor is still inactive at the first frame
  callback, that callback requests activation again and converts nothing, and the
  callback after it publishes.
\<close>

theorem point_cloud_subscription_cycle:
  fixes F :: "('f, 'd::preorder) platform" and this :: "('f, 'd) GazeboRosDepthCamera"
    and img :: "'f list" and w h d :: nat and fmt :: string
  defines "s1 \<equiv> PointCloudConnect this"
  defines "pre \<equiv> (if advertised s1 then s1 else Advertise s1)
                    \<lparr>depth_sensor_update_time := sensor_last_update_time s1\<rparr>"
  defines "s2 \<equiv> OnNewDepthFrame F s1 img w h d fmt"
  defines "s3 \<equiv> PointCloudDisconnect s2"
  defines "late \<equiv> OnNewDepthFrame F (s1\<lparr>sensor_active := False\<rparr>) img w h d fmt"
  assumes "\<not> sensor_active this"
    and "point_cloud_connect_count this = 0"
    and "depth_image_connect_count this = 0"
    and "image_connect_count this = 0"
    and "initialized this" and "0 < utils_width this" and "0 < utils_height this"
  shows "effects s1 = effects this @ [SetActive True] \<and> sensor_active s1 \<and>
         point_cloud_connect_count s1 = 1 \<and> point_cloud_msg s1 = point_cloud_msg this \<and>
         s2 = FillPointdCloud F pre img \<and>
         effects s2 = effects s1 @ (if advertised this then [] else [Advertised]) @
                        [Publish_point_cloud (point_cloud_msg s2)] \<and>
         point_cloud_connect_count s3 = 0 \<and> depth_image_connect_count s3 = 0 \<and>
         effects s3 = effects s2 @ [SetActive False] \<and> \<not> sensor_active s3 \<and>
         effects late = effects s1 @ (if advertised this then [] else [Advertised]) @
                          [SetActive True] \<and>
         point_cloud_msg late = point_cloud_msg this \<and> sensor_active late \<and>
         effects (OnNewDepthFrame F late img w h d fmt) =
           effects late @
             [Publish_point_cloud (point_cloud_msg (OnNewDepthFrame F late img w h d fmt))]"
  using assms(6-12)
  unfolding s1_def pre_def s2_def s3_def late_def
  by (simp add: OnNewDepthFrame_def FillPointdCloud_def handler_defs Let_def)

theorem point_cloud_subscription_cycle_witness:
  "\<not> sensor_active idle_camera \<and> point_cloud_connect_count idle_camera = 0 \<and>
   depth_image_connect_count idle_camera = 0 \<and> image_connect_count idle_camera = 0 \<and>
   initialized idle_camera \<and> 0 < utils_width idle_camera \<and> 0 < utils_height idle_camera \<and>
   (let s1 = PointCloudConnect idle_camera;
        s2 = OnNewDepthFrame exact_platform s1 [Num 1, Num 2] 2 1 1 ''FLOAT32'';
        s3 = PointCloudDisconnect s2
    in effects s1 = [SetActive True] \<and>
       effects s2 = [SetActive True, Advertised, Publish_point_cloud (point_cloud_msg s2)] \<and>
       effects s3 = [SetActive True, Advertised, Publish_point_cloud (point_cloud_msg s2),
                     SetActive False] \<and>
       point_cloud_connect_count s3 = 0 \<and> \<not> sensor_active s3)"
  using point_cloud_subscription_cycle [where this = idle_camera and F = exact_platform
    and img = "[Num 1, Num 2]" and w = 2 and h = 1 and d = 1 and fmt = "''FLOAT32''"]
  by (simp add: idle_camera_sel handler_defs FillPointdCloud_def Let_def)

text \<open>
  Claim C9. The claim: for every sequence of subscribe and unsubscribe calls, every
  connection counter stays non-negative. No handler clamps: an unsubscribe on a fresh
  plugin leaves the depth camera-info counter at minus one.
\<close>

theorem counters_unclamped_counterexample:
  "depth_info_connect_count (run_connections [DepthInfo_unsubscribe] idle_camera) = - 1 \<and>
   \<not> counters_nonneg (run_connections [DepthInfo_unsubscribe] idle_camera)"
  by (simp add: idle_camera_def GazeboRosDepthCamera_ctor_def DepthInfoDisconnect_def
        counters_nonneg_def)

text \<open>
  Claim C9, amended. Each subscribe handler adds one to the counter of its channel and
  each unsubscribe handler subtracts one. Starting from non-negative counters, the
  point-cloud, depth-image and depth camera-info counters are non-negative after every
  prefix of a history in which each unsubscribe arrives while the counter of its channel
  is positive.
\<close>

theorem counters_nonneg_when_matched:
  fixes this :: "('f, 'd) GazeboRosDepthCamera"
  assumes "counters_nonneg this" and "matched es this"
  shows "(\<forall>n\<le>length es. counters_nonneg (run_connections (take n es) this)) \<and>
         point_cloud_connect_count (PointCloudConnect this) = point_cloud_connect_count this + 1 \<and>
         point_cloud_connect_count (PointCloudDisconnect this) =
           point_cloud_connect_count this - 1 \<and>
         depth_image_connect_count (DepthImageConnect this) =
           depth_image_connect_count this + 1 \<and>
         depth_image_connect_count (DepthImageDisconnect this) =
           depth_image_connect_count this - 1 \<and>
         depth_info_connect_count (DepthInfoConnect this) = depth_info_connect_count this + 1 \<and>
         depth_info_connect_count (DepthInfoDisconnect this) =
           depth_info_connect_count this - 1"
  using assms
  by (simp add: run_connections_nonneg matched_take PointCloudConnect_def
        PointCloudDisconnect_def DepthImageConnect_def DepthImageDisconnect_def
        DepthInfoConnect_def DepthInfoDisconnect_def parentSensor_SetActive_def emit_def Let_def)

theorem counters_nonneg_when_matched_witness:
  "counters_nonneg idle_camera \<and>
   matched [DepthInfo_subscribe, PointCloud_subscribe, DepthInfo_unsubscribe,
            PointCloud_unsubscribe] idle_camera \<and>
   counters_nonneg (run_connections [DepthInfo_subscribe, PointCloud_subscribe,
            DepthInfo_unsubscribe, PointCloud_unsubscribe] idle_camera) \<and>
   counters_nonneg (run_connections [DepthInfo_subscribe, PointCloud_subscribe] idle_camera)"
proof -
  let ?es = "[DepthInfo_subscribe, PointCloud_subscribe, DepthInfo_unsubscribe,
              PointCloud_unsubscribe]"
  have n: "counters_nonneg idle_camera"
    by (simp add: counters_nonneg_def idle_camera_sel)
  have m: "matched ?es idle_camera"
    by (simp add: idle_camera_sel PointCloudConnect_def PointCloudDisconnect_def
          DepthInfoConnect_def DepthInfoDisconnect_def parentSensor_SetActive_def emit_def)
  from counters_nonneg_when_matched [OF n m]
  have all: "\<forall>n\<le>length ?es. counters_nonneg (run_connections (take n ?es) idle_camera)"
    by blast
  from all have "counters_nonneg (run_connections (take 4 ?es) idle_camera)"
    by (intro all [rule_format]) simp
  moreover from all have "counters_nonneg (run_connections (take 2 ?es) idle_camera)"
    by (intro all [rule_format]) simp
  ultimately show ?thesis
    using n m by (simp del: run_connections.simps matched.simps)
qed

section \<open>The coloured point frame\<close>

text \<open>
  Claim C10. For an interleaved buffer \<open>pcd\<close> of \<open>W\<close> columns and \<open>H\<close> rows with
  \<open>W > 1\<close> and \<open>H > 1\<close>, the loops of \<^verbatim>\<open>OnNewRGBPointCloud\<close> append the points in
  column-major order, column \<open>i\<close> outside and row \<open>j\<close> inside, each point read from
  the four floats at offset \<open>4 * (j * W + i)\<close>; an active plugin with a point-cloud
  subscriber publishes exactly this cloud. The converter of the depth buffer appends in
  row-major order, row \<open>j\<close> outside and column \<open>i\<close> inside, and the two orders of the
  pixels \<open>(i, j)\<close> differ. The float offsets are below \<open>2 ^ 32\<close>.
\<close>

theorem rgb_point_cloud_column_major:
  fixes F :: "('f, 'd) platform" and G :: "('f, 'e::preorder) platform"
    and this :: "('f, 'd) GazeboRosDepthCamera"
    and pcd :: "'f list" and W H d :: nat and fmt :: string
  defines "m1 \<equiv> (point_cloud_msg this)
     \<lparr>pc2_header := stamp_header (frame_name this) (sensor_last_update_time this)
                      (pc2_header (point_cloud_msg this)),
      pc2_width := width this,
      pc2_height := height this,
      pc2_row_step := u32 (pc2_point_step (point_cloud_msg this) * width this)\<rparr>"
  assumes "1 < W" and "1 < H" and "4 * (W * H) \<le> 2 ^ 32"
  shows "points (fst (OnNewRGBPointCloud_loops F pcd W H (start, out))) =
           points start @
             map (\<lambda>(i, j). rgb_point pcd (4 * (j * W + i))) (List.product [0..<W] [0..<H]) \<and>
         points (FillPointCloudHelper_point_cloud G w hfov c img msg H W step src) =
           map (\<lambda>(j, i). fst (FillPointCloud_point G c img H W (fl_of G w hfov) j
                               (angle_of G H (fl_of G w hfov) j) i (src ! (j * W + i))))
             (List.product [0..<H] [0..<W]) \<and>
         List.product [0..<W] [0..<H] \<noteq> map prod.swap (List.product [0..<H] [0..<W]) \<and>
         (initialized this \<and> 0 < utils_height this \<and> 0 < utils_width this \<and>
          sensor_active this \<and> 0 < point_cloud_connect_count this \<longrightarrow>
            point_cloud_msg (OnNewRGBPointCloud F this pcd W H d fmt) =
              toROSMsg F
                \<lparr>pc_header = pc2_header m1,
                 points = map (\<lambda>(i, j). rgb_point pcd (4 * (j * W + i)))
                            (List.product [0..<W] [0..<H]),
                 is_dense = True\<rparr> m1)"
proof -
  have a: "points (fst (OnNewRGBPointCloud_loops F pcd W H (start, out))) =
           points start @
             map (\<lambda>(i, j). rgb_point pcd (4 * (j * W + i))) (List.product [0..<W] [0..<H])"
    by (simp add: rgb_loops_closed [OF assms(4)])
  have b: "points (FillPointCloudHelper_point_cloud G w hfov c img msg H W step src) =
           map (\<lambda>(j, i). fst (FillPointCloud_point G c img H W (fl_of G w hfov) j
                               (angle_of G H (fl_of G w hfov) j) i (src ! (j * W + i))))
             (List.product [0..<H] [0..<W])"
    by (simp only: point_cloud_closed PointCloud.simps row_major_product)
  have d: "point_cloud_msg (OnNewRGBPointCloud F this pcd W H d fmt) =
             toROSMsg F
               \<lparr>pc_header = pc2_header m1,
                points = map (\<lambda>(i, j). rgb_point pcd (4 * (j * W + i)))
                           (List.product [0..<W] [0..<H]),
                is_dense = True\<rparr> m1"
    if "initialized this" "0 < utils_height this" "0 < utils_width this"
      "sensor_active this" "0 < point_cloud_connect_count this"
  proof -
    define pts where
      "pts = map (\<lambda>(i, j). rgb_point pcd (4 * (j * W + i))) (List.product [0..<W] [0..<H])"
    have L: "fst (OnNewRGBPointCloud_loops F pcd W H acc) =
               (fst acc)\<lparr>points := points (fst acc) @ pts\<rparr>" for acc
      unfolding pts_def by (rule rgb_loops_closed [OF assms(4)])
    show ?thesis
      unfolding pts_def [symmetric] m1_def using that
      by (simp add: OnNewRGBPointCloud_def Let_def Advertise_def emit_def split_beta L)
  qed
  from a b d orders_differ [OF assms(2,3)] show ?thesis by blast
qed

theorem rgb_point_cloud_column_major_witness:
  "(1::nat) < 2 \<and> (4::nat) * (2 * 2) \<le> 2 ^ 32 \<and>
   initialized (PointCloudConnect idle_camera) \<and>
   0 < utils_height (PointCloudConnect idle_camera) \<and>
   0 < utils_width (PointCloudConnect idle_camera) \<and>
   sensor_active (PointCloudConnect idle_camera) \<and>
   0 < point_cloud_connect_count (PointCloudConnect idle_camera) \<and>
   map pt_x (points (fst (OnNewRGBPointCloud_loops exact_platform
       [Num 0, Num 1, Num 2, Num 3, Num 4, Num 5, Num 6, Num 7,
        Num 8, Num 9, Num 10, Num 11, Num 12, Num 13, Num 14, Num 15] 2 2
       (\<lparr>pc_header = empty_header, points = [], is_dense = True\<rparr>, [])))) =
     [Num 0, Num 8, Num 4, Num 12] \<and>
   pc2_width (point_cloud_msg (OnNewRGBPointCloud exact_platform
       (PointCloudConnect idle_camera)
       [Num 0, Num 1, Num 2, Num 3, Num 4, Num 5, Num 6, Num 7,
        Num 8, Num 9, Num 10, Num 11, Num 12, Num 13, Num 14, Num 15] 2 2 4 ''FLOAT32'')) = 4"
proof -
  have prod: "List.product [0..<2] [0..<2::nat] = [(0, 0), (0, 1), (1, 0), (1, 1)]"
    by code_simp
  show ?thesis
    using rgb_point_cloud_column_major [where F = exact_platform and G = exact_platform
      and this = "PointCloudConnect idle_camera" and W = 2 and H = 2
      and pcd = "[Num 0, Num 1, Num 2, Num 3, Num 4, Num 5, Num 6, Num 7,
        Num 8, Num 9, Num 10, Num 11, Num 12, Num 13, Num 14, Num 15]"
      and d = 4 and fmt = "''FLOAT32''"
      and start = "\<lparr>pc_header = empty_header, points = [], is_dense = True\<rparr>" and out = "[]"]
    unfolding prod
    by (simp add: idle_camera_sel handler_defs exact_platform_def u32_def)
qed

end
